theory Spec2Isabelle
  imports Main
begin

section \<open>JavaScript values and string primitives\<close>

text \<open>
  Strings are lists of characters. A thrown value is represented by the text that the
  source's handlers extract from it (\<^verbatim>\<open>error instanceof Error ? error.message : String(error)\<close>);
  every \<^verbatim>\<open>throw new Error(m)\<close> of the source is \<open>Error m\<close>. A call that can throw
  returns \<open>exn + 'a\<close>, with \<open>Inl\<close> for the thrown value.
\<close>

datatype exn = Error (message: string)

text \<open>The white space of \<^verbatim>\<open>String.prototype.trim\<close> and of the regular expression
  class \<^verbatim>\<open>\s\<close>, restricted to the character codes below 256.\<close>

definition whitespace :: "char \<Rightarrow> bool" where
  "whitespace c =
     (c \<in> set [CHR 0x09, CHR 0x0A, CHR 0x0B, CHR 0x0C, CHR 0x0D, CHR 0x20, CHR 0xA0])"

definition trim :: "string \<Rightarrow> string" where
  "trim s = rev (dropWhile whitespace (rev (dropWhile whitespace s)))"

fun startsWith :: "string \<Rightarrow> string \<Rightarrow> bool" where
  "startsWith s [] = True"
| "startsWith [] (p # ps) = False"
| "startsWith (c # cs) (p # ps) = (c = p \<and> startsWith cs ps)"

fun str_includes :: "string \<Rightarrow> string \<Rightarrow> bool" where
  "str_includes [] sub = (sub = [])"
| "str_includes (c # cs) sub = (startsWith (c # cs) sub \<or> str_includes cs sub)"

text \<open>\<^verbatim>\<open>s.split(sep)\<close> for a separator of one character: every occurrence of the
  separator ends a piece, so \<^verbatim>\<open>"a  b".split(' ')\<close> is \<^verbatim>\<open>["a", "", "b"]\<close> and
  \<^verbatim>\<open>"".split(' ')\<close> is \<^verbatim>\<open>[""]\<close>.\<close>

fun split_on :: "char \<Rightarrow> string \<Rightarrow> string list" where
  "split_on sep [] = [[]]"
| "split_on sep (c # cs) =
     (if c = sep then [] # split_on sep cs
      else (case split_on sep cs of
              [] \<Rightarrow> [[c]]
            | piece # pieces \<Rightarrow> (c # piece) # pieces))"

text \<open>\<^verbatim>\<open>xs.join(sep)\<close>.\<close>

fun join_with :: "string \<Rightarrow> string list \<Rightarrow> string" where
  "join_with sep [] = []"
| "join_with sep [x] = x"
| "join_with sep (x # y # ys) = x @ sep @ join_with sep (y # ys)"

text \<open>\<^verbatim>\<open>s.split(/\s+/)\<close>: a maximal run of white space is one separator.\<close>

function split_whitespace :: "string \<Rightarrow> string list" where
  "split_whitespace [] = [[]]"
| "split_whitespace (c # cs) =
     (if whitespace c then [] # split_whitespace (dropWhile whitespace cs)
      else (case split_whitespace cs of
              [] \<Rightarrow> [[c]]
            | piece # pieces \<Rightarrow> (c # piece) # pieces))"
  by pat_completeness auto
termination
  by (relation "measure length") (auto simp: length_dropWhile_le less_Suc_eq_le)

text \<open>Decimal text of a non-negative whole number, as template literals print it.\<close>

fun decimal :: "nat \<Rightarrow> string" where
  "decimal n =
     (if n < 10 then [char_of (48 + n)]
      else decimal (n div 10) @ [char_of (48 + n mod 10)])"

declare decimal.simps [simp del]

text \<open>
  \<^verbatim>\<open>parseInt(s)\<close> without a radix: leading white space is skipped, a sign is read, a
  prefix \<^verbatim>\<open>0x\<close> selects base 16, and the longest run of digits is converted; no digit
  gives \<open>NaN\<close>. Numbers are whole numbers here; the rounding of values beyond
  \<open>2^53\<close> is not represented.
\<close>

datatype js_number = Number int | NaN

definition digit_value :: "nat \<Rightarrow> char \<Rightarrow> nat option" where
  "digit_value radix c =
     (let k = of_char c :: nat;
          v = (if 48 \<le> k \<and> k \<le> 57 then Some (k - 48)
               else if 97 \<le> k \<and> k \<le> 122 then Some (k - 87)
               else if 65 \<le> k \<and> k \<le> 90 then Some (k - 55)
               else None)
      in case v of
           None \<Rightarrow> None
         | Some d \<Rightarrow> if d < radix then Some d else None)"

fun digits_value :: "nat \<Rightarrow> nat \<Rightarrow> string \<Rightarrow> nat" where
  "digits_value radix acc [] = acc"
| "digits_value radix acc (c # cs) =
     (case digit_value radix c of
        None \<Rightarrow> acc
      | Some d \<Rightarrow> digits_value radix (acc * radix + d) cs)"

definition parseInt :: "string \<Rightarrow> js_number" where
  "parseInt s =
     (let s1 = dropWhile whitespace s;
          negative = startsWith s1 ''-'';
          s2 = (if startsWith s1 ''-'' \<or> startsWith s1 ''+'' then tl s1 else s1);
          hex = (startsWith s2 ''0x'' \<or> startsWith s2 ''0X'');
          radix = (if hex then 16 else 10);
          s3 = (if hex then drop 2 s2 else s2)
      in case s3 of
           [] \<Rightarrow> NaN
         | c # cs \<Rightarrow>
             (case digit_value radix c of
                None \<Rightarrow> NaN
              | Some d \<Rightarrow>
                  let v = int (digits_value radix 0 (c # cs))
                  in Number (if negative then - v else v)))"

section \<open>The data model of the sandbox contract\<close>

datatype provider_kind = E2b | Vercel | SelfHosted

record SandboxInfo =
  sandboxId :: string
  url :: string
  provider :: provider_kind
  createdAt :: nat

record CommandResult =
  stdout :: string
  stderr :: string
  exitCode :: int
  success :: bool

text \<open>\<^verbatim>\<open>SandboxProviderConfig\<close>: every part is optional.\<close>

record E2bOptions =
  apiKey :: string
  e2b_timeoutMs :: "int option"
  template :: "string option"

datatype auth_method = Oidc | Pat

record VercelOptions =
  teamId :: "string option"
  projectId :: "string option"
  token :: "string option"
  authMethod :: "auth_method option"

record DockerOptions =
  opt_socketPath :: "string option"
  opt_host :: "string option"
  opt_port :: "int option"

record ResourceOptions =
  opt_memory :: "int option"
  opt_cpu :: "int option"
  opt_timeout :: "int option"

record NetworkOptions =
  opt_mode :: "string option"
  opt_allowedPorts :: "int list option"

record SelfHostedOptions =
  opt_docker :: "DockerOptions option"
  opt_resources :: "ResourceOptions option"
  opt_network :: "NetworkOptions option"
  opt_volumes :: "string list option"
  opt_baseImage :: "string option"

record SandboxProviderConfig =
  e2b :: "E2bOptions option"
  vercel :: "VercelOptions option"
  selfHosted :: "SelfHostedOptions option"

text \<open>\<^verbatim>\<open>DockerConfig\<close> and \<^verbatim>\<open>SelfHostedConfig\<close> of the self-hosted provider.\<close>

record DockerConfig =
  socketPath :: "string option"
  host :: "string option"
  port :: "js_number option"

record Resources =
  memory :: int
  cpu :: int
  timeout :: int

record Network =
  mode :: string
  allowedPorts :: "int list"

record SelfHostedConfig =
  timeoutMinutes :: int
  timeoutMs :: int
  devPort :: int
  devServerStartupDelay :: int
  workingDirectory :: string
  docker :: DockerConfig
  resources :: Resources
  network :: Network
  baseImage :: string
  volumes :: "string list"

text \<open>The two variables of \<^verbatim>\<open>process.env\<close> that the constructor reads.\<close>

record ProcessEnv =
  DOCKER_HOST :: "string option"
  DOCKER_PORT :: "string option"

section \<open>The world outside the provider\<close>

text \<open>
  Every operation takes the world and returns it. The world holds what the code reads
  from its surroundings: the system time (\<^verbatim>\<open>Date.now()\<close>, \<^verbatim>\<open>new Date()\<close>), the text
  \<^verbatim>\<open>Math.random().toString(36).substr(2, 9)\<close>, and the state \<open>engine\<close> of whatever
  stands behind the container client. The \<open>n\<close>-th read of the time or of the random
  text returns the \<open>n\<close>-th value of a sequence, so consecutive reads may differ.
  Output to the console is not represented.
\<close>

record 'd world =
  clock :: "nat \<Rightarrow> nat"
  clock_reads :: nat
  random :: "nat \<Rightarrow> string"
  random_reads :: nat
  engine :: 'd

definition Date_now :: "'d world \<Rightarrow> nat \<times> 'd world" where
  "Date_now w = (clock w (clock_reads w), w\<lparr>clock_reads := Suc (clock_reads w)\<rparr>)"

definition Math_random_suffix :: "'d world \<Rightarrow> string \<times> 'd world" where
  "Math_random_suffix w = (random w (random_reads w), w\<lparr>random_reads := Suc (random_reads w)\<rparr>)"

section \<open>The container client used by the provider\<close>

text \<open>
  The provider calls its container client through the field \<^verbatim>\<open>dockerClient\<close>. The
  client is a record of operations on the world; each may throw. \<^verbatim>\<open>execCommand\<close>
  returns a promise that the provider races against a timer, so its reply carries the
  time in milliseconds after which the promise settles, next to what it settles with.
\<close>

record exec_reply =
  elapsed :: nat
  outcome :: "exn + CommandResult"

record port_binding =
  HostPort :: string

record container_info =
  ports :: "string \<rightharpoonup> port_binding"

record HostConfig =
  Memory :: int
  CpuQuota :: int
  NetworkMode :: string
  AutoRemove :: bool
  PortBindings :: "(string \<times> string list) list"

record ContainerOptions =
  co_image :: string
  co_name :: string
  co_cmd :: "string list"
  co_env :: "(string \<times> string) list"
  co_workingDir :: string
  co_hostConfig :: HostConfig

record 'd container_client =
  client_ping :: "'d world \<Rightarrow> (exn + bool) \<times> 'd world"
  client_pullImage :: "string \<Rightarrow> 'd world \<Rightarrow> (exn + unit) \<times> 'd world"
  client_createContainer :: "ContainerOptions \<Rightarrow> 'd world \<Rightarrow> (exn + string) \<times> 'd world"
  client_startContainer :: "string \<Rightarrow> 'd world \<Rightarrow> (exn + unit) \<times> 'd world"
  client_execCommand :: "string \<Rightarrow> string list \<Rightarrow> 'd world \<Rightarrow> exec_reply \<times> 'd world"
  client_writeFile :: "string \<Rightarrow> string \<Rightarrow> string \<Rightarrow> 'd world \<Rightarrow> (exn + unit) \<times> 'd world"
  client_readFile :: "string \<Rightarrow> string \<Rightarrow> 'd world \<Rightarrow> (exn + string) \<times> 'd world"
  client_listFiles :: "string \<Rightarrow> string option \<Rightarrow> 'd world \<Rightarrow> (exn + string list) \<times> 'd world"
  client_getContainerInfo :: "string \<Rightarrow> 'd world \<Rightarrow> (exn + container_info) \<times> 'd world"
  client_isContainerRunning :: "string \<Rightarrow> 'd world \<Rightarrow> (exn + bool) \<times> 'd world"
  client_stopContainer :: "string \<Rightarrow> 'd world \<Rightarrow> (exn + unit) \<times> 'd world"
  client_removeContainer :: "string \<Rightarrow> 'd world \<Rightarrow> (exn + unit) \<times> 'd world"

subsection \<open>\<^verbatim>\<open>SimpleDockerClient\<close>\<close>

text \<open>
  The client that the provider constructs. Behind it stands only the HTTP endpoint that
  \<^verbatim>\<open>ping\<close> fetches: the \<open>n\<close>-th \<^verbatim>\<open>fetch\<close> either throws or returns a response whose
  \<^verbatim>\<open>ok\<close> flag is given. All other operations answer from constants; they are
  \<^verbatim>\<open>async\<close> functions without an \<^verbatim>\<open>await\<close>, so their promises settle at once.
\<close>

record http_endpoint =
  fetch_ok :: "nat \<Rightarrow> exn + bool"
  fetches :: nat

definition SimpleDockerClient_ping :: "http_endpoint world \<Rightarrow> (exn + bool) \<times> http_endpoint world" where
  "SimpleDockerClient_ping w =
     (let e = engine w;
          w' = w\<lparr>engine := e\<lparr>fetches := Suc (fetches e)\<rparr>\<rparr>
      in case fetch_ok e (fetches e) of
           Inl error \<Rightarrow> (Inr False, w')
         | Inr ok \<Rightarrow> (Inr ok, w'))"

definition SimpleDockerClient_pullImage ::
  "string \<Rightarrow> http_endpoint world \<Rightarrow> (exn + unit) \<times> http_endpoint world" where
  "SimpleDockerClient_pullImage imageName w = (Inr (), w)"

definition SimpleDockerClient_createContainer ::
  "ContainerOptions \<Rightarrow> http_endpoint world \<Rightarrow> (exn + string) \<times> http_endpoint world" where
  "SimpleDockerClient_createContainer options w =
     (let (now, w1) = Date_now w;
          (suffix, w2) = Math_random_suffix w1;
          containerId = ''container-'' @ decimal now @ ''-'' @ suffix
      in (Inr containerId, w2))"

definition SimpleDockerClient_startContainer ::
  "string \<Rightarrow> http_endpoint world \<Rightarrow> (exn + unit) \<times> http_endpoint world" where
  "SimpleDockerClient_startContainer containerId w = (Inr (), w)"

definition SimpleDockerClient_execCommand ::
  "string \<Rightarrow> string list \<Rightarrow> http_endpoint world \<Rightarrow> exec_reply \<times> http_endpoint world" where
  "SimpleDockerClient_execCommand containerId command w =
     (let commandStr = join_with '' '' command
      in if str_includes commandStr ''test -f'' then
           (\<lparr>elapsed = 0,
             outcome = Inr \<lparr>stdout = [], stderr = [], exitCode = 1, success = False\<rparr>\<rparr>, w)
         else if str_includes commandStr ''mkdir'' then
           (\<lparr>elapsed = 0,
             outcome = Inr \<lparr>stdout = [], stderr = [], exitCode = 0, success = True\<rparr>\<rparr>, w)
         else
           (\<lparr>elapsed = 0,
             outcome = Inr \<lparr>stdout = ''Command executed: '' @ commandStr, stderr = [],
                            exitCode = 0, success = True\<rparr>\<rparr>, w))"

definition SimpleDockerClient_writeFile ::
  "string \<Rightarrow> string \<Rightarrow> string \<Rightarrow> http_endpoint world \<Rightarrow> (exn + unit) \<times> http_endpoint world" where
  "SimpleDockerClient_writeFile containerId path content w = (Inr (), w)"

definition SimpleDockerClient_readFile ::
  "string \<Rightarrow> string \<Rightarrow> http_endpoint world \<Rightarrow> (exn + string) \<times> http_endpoint world" where
  "SimpleDockerClient_readFile containerId path w = (Inr ''{}'', w)"

definition SimpleDockerClient_listFiles ::
  "string \<Rightarrow> string option \<Rightarrow> http_endpoint world \<Rightarrow> (exn + string list) \<times> http_endpoint world" where
  "SimpleDockerClient_listFiles containerId directory w =
     (Inr [''package.json'', ''src/'', ''index.html''], w)"

definition SimpleDockerClient_getContainerInfo ::
  "string \<Rightarrow> http_endpoint world \<Rightarrow> (exn + container_info) \<times> http_endpoint world" where
  "SimpleDockerClient_getContainerInfo containerId w =
     (Inr \<lparr>ports = [''3000/tcp'' \<mapsto> \<lparr>HostPort = ''3001''\<rparr>]\<rparr>, w)"

definition SimpleDockerClient_isContainerRunning ::
  "string \<Rightarrow> http_endpoint world \<Rightarrow> (exn + bool) \<times> http_endpoint world" where
  "SimpleDockerClient_isContainerRunning containerId w = (Inr True, w)"

definition SimpleDockerClient_stopContainer ::
  "string \<Rightarrow> http_endpoint world \<Rightarrow> (exn + unit) \<times> http_endpoint world" where
  "SimpleDockerClient_stopContainer containerId w = (Inr (), w)"

definition SimpleDockerClient_removeContainer ::
  "string \<Rightarrow> http_endpoint world \<Rightarrow> (exn + unit) \<times> http_endpoint world" where
  "SimpleDockerClient_removeContainer containerId w = (Inr (), w)"

definition SimpleDockerClient :: "http_endpoint container_client" where
  "SimpleDockerClient =
     \<lparr>client_ping = SimpleDockerClient_ping,
      client_pullImage = SimpleDockerClient_pullImage,
      client_createContainer = SimpleDockerClient_createContainer,
      client_startContainer = SimpleDockerClient_startContainer,
      client_execCommand = SimpleDockerClient_execCommand,
      client_writeFile = SimpleDockerClient_writeFile,
      client_readFile = SimpleDockerClient_readFile,
      client_listFiles = SimpleDockerClient_listFiles,
      client_getContainerInfo = SimpleDockerClient_getContainerInfo,
      client_isContainerRunning = SimpleDockerClient_isContainerRunning,
      client_stopContainer = SimpleDockerClient_stopContainer,
      client_removeContainer = SimpleDockerClient_removeContainer\<rparr>"

section \<open>\<^verbatim>\<open>DockerClient\<close>, the client over the container engine's API\<close>

text \<open>
  The class holds one field, \<^verbatim>\<open>docker\<close>, the binding to the engine. The binding is a
  record of the calls that the methods below make; each call acts on the engine's state
  and may throw. An exec instance and a container are represented by their identifiers.
\<close>

record exec_chunk =
  chunk_stdout :: "string option"
  chunk_stderr :: "string option"

record inspect_info =
  State_Status :: string
  State_ExitCode :: "int option"

record run_options =
  Image :: string
  Cmd :: "string list"
  run_AutoRemove :: bool
  VolumesFrom :: "string list"

record 'e Docker =
  container_exec :: "string \<Rightarrow> string list \<Rightarrow> 'e \<Rightarrow> (exn + string) \<times> 'e"
  exec_start :: "string \<Rightarrow> 'e \<Rightarrow> (exn + unit) \<times> 'e"
  modem_followExec :: "string \<Rightarrow> string \<Rightarrow> 'e \<Rightarrow> (exn + exec_chunk list option) \<times> 'e"
  container_inspect :: "string \<Rightarrow> 'e \<Rightarrow> (exn + inspect_info) \<times> 'e"
  docker_createContainer :: "run_options \<Rightarrow> 'e \<Rightarrow> (exn + string) \<times> 'e"
  container_start :: "string \<Rightarrow> 'e \<Rightarrow> (exn + unit) \<times> 'e"
  container_wait :: "string \<Rightarrow> 'e \<Rightarrow> (exn + unit) \<times> 'e"

text \<open>The loop over \<^verbatim>\<open>data.output\<close>, with the two accumulators.\<close>

fun collect_output :: "exec_chunk list \<Rightarrow> string \<Rightarrow> string \<Rightarrow> string \<times> string" where
  "collect_output [] out err = (out, err)"
| "collect_output (chunk # chunks) out err =
     collect_output chunks
       (case chunk_stdout chunk of None \<Rightarrow> out | Some bytes \<Rightarrow> out @ bytes)
       (case chunk_stderr chunk of None \<Rightarrow> err | Some bytes \<Rightarrow> err @ bytes)"

definition DockerClient_execCommand ::
  "'e Docker \<Rightarrow> string \<Rightarrow> string list \<Rightarrow> 'e \<Rightarrow> CommandResult \<times> 'e" where
  "DockerClient_execCommand dk cid command e =
     (case container_exec dk cid command e of
        (Inl error, e1) \<Rightarrow>
          (\<lparr>stdout = [], stderr = message error, exitCode = 1, success = False\<rparr>, e1)
      | (Inr exec, e1) \<Rightarrow>
          (case exec_start dk exec e1 of
             (Inl error, e2) \<Rightarrow>
               (\<lparr>stdout = [], stderr = message error, exitCode = 1, success = False\<rparr>, e2)
           | (Inr _, e2) \<Rightarrow>
               (case modem_followExec dk exec cid e2 of
                  (Inl error, e3) \<Rightarrow>
                    (\<lparr>stdout = [], stderr = message error, exitCode = 1, success = False\<rparr>, e3)
                | (Inr data, e3) \<Rightarrow>
                    (let (out, err) =
                           (case data of
                              None \<Rightarrow> ([], [])
                            | Some chunks \<Rightarrow> collect_output chunks [] [])
                     in case container_inspect dk cid e3 of
                          (Inl error, e4) \<Rightarrow>
                            (\<lparr>stdout = [], stderr = message error, exitCode = 1,
                              success = False\<rparr>, e4)
                        | (Inr inspect, e4) \<Rightarrow>
                            (let code = (case State_ExitCode inspect of
                                           None \<Rightarrow> 0
                                         | Some n \<Rightarrow> n)
                             in (\<lparr>stdout = out, stderr = err, exitCode = code,
                                  success = (code = 0)\<rparr>, e4))))))"

text \<open>\<^verbatim>\<open>content.replace(/'/g, "'\\''")\<close>: every single quote becomes the four
  characters quote, backslash, quote, quote.\<close>

definition escape_quotes :: "string \<Rightarrow> string" where
  "escape_quotes content =
     concat (map (\<lambda>c. if c = CHR 0x27 then [CHR 0x27, CHR 0x5C, CHR 0x27, CHR 0x27] else [c])
               content)"

definition DockerClient_writeFile ::
  "'e Docker \<Rightarrow> string \<Rightarrow> string \<Rightarrow> string \<Rightarrow> 'e \<Rightarrow> (exn + unit) \<times> 'e" where
  "DockerClient_writeFile dk cid path content e =
     (case docker_createContainer dk
             \<lparr>Image = ''alpine:latest'',
              Cmd = [''sh'', ''-c'',
                     ''echo '' @ [CHR 0x27] @ escape_quotes content @ [CHR 0x27] @ '' > '' @ path],
              run_AutoRemove = True,
              VolumesFrom = [cid]\<rparr> e of
        (Inl error, e1) \<Rightarrow> (Inl error, e1)
      | (Inr tempContainer, e1) \<Rightarrow>
          (case container_start dk tempContainer e1 of
             (Inl error, e2) \<Rightarrow> (Inl error, e2)
           | (Inr _, e2) \<Rightarrow>
               (case container_wait dk tempContainer e2 of
                  (Inl error, e3) \<Rightarrow> (Inl error, e3)
                | (Inr _, e3) \<Rightarrow> (Inr (), e3))))"

definition DockerClient_readFile ::
  "'e Docker \<Rightarrow> string \<Rightarrow> string \<Rightarrow> 'e \<Rightarrow> (exn + string) \<times> 'e" where
  "DockerClient_readFile dk cid path e =
     (let (result, e1) = DockerClient_execCommand dk cid [''cat'', path] e
      in if \<not> success result then
           (Inl (Error (''Failed to read file: '' @ stderr result)), e1)
         else (Inr (stdout result), e1))"

text \<open>The loop of \<^verbatim>\<open>listFiles\<close> over the lines of the listing.\<close>

fun listing_names :: "string list \<Rightarrow> string list" where
  "listing_names [] = []"
| "listing_names (line # lines) =
     (if startsWith line ''total'' \<or> str_includes line ''<DIR>'' then listing_names lines
      else
        (let parts = split_whitespace (trim line)
         in if length parts > 0 then
              (let filename = last parts
               in if filename \<noteq> ''.'' \<and> filename \<noteq> ''..'' then filename # listing_names lines
                  else listing_names lines)
            else listing_names lines))"

definition DockerClient_listFiles ::
  "'e Docker \<Rightarrow> string \<Rightarrow> string option \<Rightarrow> 'e \<Rightarrow> (exn + string list) \<times> 'e" where
  "DockerClient_listFiles dk cid directory e =
     (let dir = (case directory of None \<Rightarrow> ''/'' | Some d \<Rightarrow> d);
          (result, e1) = DockerClient_execCommand dk cid [''ls'', ''-la'', dir] e
      in if \<not> success result then
           (Inl (Error (''Failed to list files: '' @ stderr result)), e1)
         else
           (let lines = filter (\<lambda>line. trim line \<noteq> []) (split_on CHR 0x0A (stdout result))
            in (Inr (listing_names lines), e1)))"

section \<open>\<^verbatim>\<open>SelfHostedProvider\<close>\<close>

text \<open>
  The fields of the class and of its base class \<^verbatim>\<open>SandboxProvider\<close> (the field
  \<^verbatim>\<open>sandbox\<close> of the base class is never assigned or read and is left out). The
  methods take the provider and the world and return the provider and the world after
  the call, next to the value returned or the value thrown.
\<close>

record 'd SelfHostedProvider =
  config :: SandboxProviderConfig
  sandboxInfo :: "SandboxInfo option"
  dockerClient :: "'d container_client"
  containerId :: "string option"
  selfHostedConfig :: SelfHostedConfig

definition new_SelfHostedProvider ::
  "ProcessEnv \<Rightarrow> SandboxProviderConfig \<Rightarrow> http_endpoint SelfHostedProvider" where
  "new_SelfHostedProvider env cfg =
     \<lparr>config = cfg,
      sandboxInfo = None,
      dockerClient = SimpleDockerClient,
      containerId = None,
      selfHostedConfig =
        \<lparr>timeoutMinutes = 30,
         timeoutMs = 30 * 60 * 1000,
         devPort = 3000,
         devServerStartupDelay = 7000,
         workingDirectory = ''/app'',
         docker =
           \<lparr>socketPath = Some ''/var/run/docker.sock'',
            host = DOCKER_HOST env,
            port = (case DOCKER_PORT env of
                      None \<Rightarrow> None
                    | Some s \<Rightarrow> if s = [] then None else Some (parseInt s))\<rparr>,
         resources = \<lparr>memory = 512 * 1024 * 1024, cpu = 50000, timeout = 30000\<rparr>,
         network = \<lparr>mode = ''bridge'', allowedPorts = [3000, 4000, 5000, 8000, 8080]\<rparr>,
         baseImage = ''node:18-alpine'',
         volumes = []\<rparr>\<rparr>"

text \<open>
  \<^verbatim>\<open>if (!this.containerId)\<close>: the guard passes when the field holds a non-empty
  string; \<^verbatim>\<open>null\<close> and the empty string are both falsy.
\<close>

definition handle :: "'d SelfHostedProvider \<Rightarrow> string option" where
  "handle p =
     (case containerId p of
        None \<Rightarrow> None
      | Some cid \<Rightarrow> if cid = [] then None else Some cid)"

definition NotProvisionedError :: exn where
  "NotProvisionedError = Error ''Sandbox not created. Call createSandbox() first.''"

text \<open>\<^verbatim>\<open>JSON.stringify(defaultPackageJson, null, 2)\<close>.\<close>

definition quoted :: "string \<Rightarrow> string" where
  "quoted s = [CHR 0x22] @ s @ [CHR 0x22]"

definition defaultPackageJson :: string where
  "defaultPackageJson = join_with [CHR 0x0A]
     [''{'',
      ''  '' @ quoted ''name'' @ '': '' @ quoted ''sandbox-project'' @ '','',
      ''  '' @ quoted ''version'' @ '': '' @ quoted ''1.0.0'' @ '','',
      ''  '' @ quoted ''scripts'' @ '': {'',
      ''    '' @ quoted ''dev'' @ '': '' @ quoted ''vite'' @ '','',
      ''    '' @ quoted ''build'' @ '': '' @ quoted ''vite build'' @ '','',
      ''    '' @ quoted ''preview'' @ '': '' @ quoted ''vite preview'',
      ''  },'',
      ''  '' @ quoted ''dependencies'' @ '': {}'',
      ''}'']"

definition initializeNodeEnvironment ::
  "'d SelfHostedProvider \<Rightarrow> string \<Rightarrow> 'd world \<Rightarrow> (exn + unit) \<times> 'd world" where
  "initializeNodeEnvironment p cid w =
     (let wd = workingDirectory (selfHostedConfig p);
          (made, w1) = client_execCommand (dockerClient p) cid [''mkdir'', ''-p'', wd] w
      in case outcome made of
           Inl error \<Rightarrow> (Inl error, w1)
         | Inr _ \<Rightarrow>
             (let (tested, w2) =
                    client_execCommand (dockerClient p) cid
                      [''test'', ''-f'', wd @ ''/package.json''] w1
              in case outcome tested of
                   Inl error \<Rightarrow> (Inl error, w2)
                 | Inr packageJsonExists \<Rightarrow>
                     if \<not> success packageJsonExists then
                       (case client_writeFile (dockerClient p) cid
                               (wd @ ''/package.json'') defaultPackageJson w2 of
                          (Inl error, w3) \<Rightarrow> (Inl error, w3)
                        | (Inr _, w3) \<Rightarrow> (Inr (), w3))
                     else (Inr (), w2)))"

definition getSandboxUrl :: "'d SelfHostedProvider \<Rightarrow> 'd world \<Rightarrow> string option \<times> 'd world" where
  "getSandboxUrl p w =
     (case handle p of
        None \<Rightarrow> (None, w)
      | Some cid \<Rightarrow>
          (case client_getContainerInfo (dockerClient p) cid w of
             (Inl error, w1) \<Rightarrow> (None, w1)
           | (Inr containerInfo, w1) \<Rightarrow>
               (case ports containerInfo ''3000/tcp'' of
                  None \<Rightarrow> (None, w1)
                | Some binding \<Rightarrow>
                    if HostPort binding \<noteq> [] then
                      (Some (''http://localhost:'' @ HostPort binding), w1)
                    else (None, w1))))"

definition containerOptions :: "'d SelfHostedProvider \<Rightarrow> string \<Rightarrow> ContainerOptions" where
  "containerOptions p sandboxId' =
     \<lparr>co_image = baseImage (selfHostedConfig p),
      co_name = sandboxId',
      co_cmd = [''/bin/sh''],
      co_env = [(''NODE_ENV'', ''development'')],
      co_workingDir = workingDirectory (selfHostedConfig p),
      co_hostConfig =
        \<lparr>Memory = memory (resources (selfHostedConfig p)),
         CpuQuota = cpu (resources (selfHostedConfig p)),
         NetworkMode = mode (network (selfHostedConfig p)),
         AutoRemove = True,
         PortBindings = [(''3000/tcp'', [''0''])]\<rparr>\<rparr>"

text \<open>The \<^verbatim>\<open>try\<close> block of \<^verbatim>\<open>createSandbox\<close>.\<close>

definition createSandbox_try ::
  "'d SelfHostedProvider \<Rightarrow> string \<Rightarrow> 'd world
     \<Rightarrow> (exn + SandboxInfo) \<times> 'd SelfHostedProvider \<times> 'd world" where
  "createSandbox_try p sandboxId' w =
     (case client_createContainer (dockerClient p) (containerOptions p sandboxId') w of
        (Inl error, w1) \<Rightarrow> (Inl error, p, w1)
      | (Inr cid, w1) \<Rightarrow>
          (case client_startContainer (dockerClient p) cid w1 of
             (Inl error, w2) \<Rightarrow> (Inl error, p, w2)
           | (Inr _, w2) \<Rightarrow>
               (let p1 = p\<lparr>containerId := Some cid\<rparr>
                in case initializeNodeEnvironment p1 cid w2 of
                     (Inl error, w3) \<Rightarrow> (Inl error, p1, w3)
                   | (Inr _, w3) \<Rightarrow>
                       (let (resolved, w4) = getSandboxUrl p1 w3;
                            (now, w5) = Date_now w4;
                            info = \<lparr>sandboxId = sandboxId',
                                    url = (case resolved of None \<Rightarrow> [] | Some u \<Rightarrow> u),
                                    provider = SelfHosted,
                                    createdAt = now\<rparr>
                        in (Inr info, p1\<lparr>sandboxInfo := Some info\<rparr>, w5)))))"

definition createSandbox ::
  "'d SelfHostedProvider \<Rightarrow> 'd world \<Rightarrow> (exn + SandboxInfo) \<times> 'd SelfHostedProvider \<times> 'd world" where
  "createSandbox p w =
     (case client_ping (dockerClient p) w of
        (Inl error, w1) \<Rightarrow> (Inl error, p, w1)
      | (Inr isDockerAvailable, w1) \<Rightarrow>
          if \<not> isDockerAvailable then
            (Inl (Error ''Docker is not available or not running''), p, w1)
          else
            (let (now, w2) = Date_now w1;
                 (suffix, w3) = Math_random_suffix w2;
                 sandboxId' = ''sandbox-'' @ decimal now @ ''-'' @ suffix
             in case createSandbox_try p sandboxId' w3 of
                  (Inl error, p', w') \<Rightarrow>
                    (Inl (Error (''Failed to create self-hosted sandbox: '' @ message error)),
                     p', w')
                | (Inr info, p', w') \<Rightarrow> (Inr info, p', w')))"

text \<open>
  \<^verbatim>\<open>Promise.race\<close> of the command against the timer: the timer wins when the command
  takes longer than the timeout, and then the race rejects with \<^verbatim>\<open>Command timeout\<close>.
  Time is counted in whole milliseconds; a command that settles exactly at the timeout
  is taken to settle first.
\<close>

definition race_timeout :: "exec_reply \<Rightarrow> int \<Rightarrow> exn + CommandResult" where
  "race_timeout reply ms =
     (if int (elapsed reply) \<le> ms then outcome reply else Inl (Error ''Command timeout''))"

definition failure_result :: "exn \<Rightarrow> CommandResult" where
  "failure_result error = \<lparr>stdout = [], stderr = message error, exitCode = 1, success = False\<rparr>"

definition runCommand ::
  "'d SelfHostedProvider \<Rightarrow> string \<Rightarrow> 'd world
     \<Rightarrow> (exn + CommandResult) \<times> 'd SelfHostedProvider \<times> 'd world" where
  "runCommand p command w =
     (case handle p of
        None \<Rightarrow> (Inl NotProvisionedError, p, w)
      | Some cid \<Rightarrow>
          (let (reply, w1) = client_execCommand (dockerClient p) cid (split_on CHR '' '' command) w
           in case race_timeout reply (timeout (resources (selfHostedConfig p))) of
                Inr result \<Rightarrow> (Inr result, p, w1)
              | Inl error \<Rightarrow> (Inr (failure_result error), p, w1)))"

definition writeFile ::
  "'d SelfHostedProvider \<Rightarrow> string \<Rightarrow> string \<Rightarrow> 'd world
     \<Rightarrow> (exn + unit) \<times> 'd SelfHostedProvider \<times> 'd world" where
  "writeFile p path content w =
     (case handle p of
        None \<Rightarrow> (Inl NotProvisionedError, p, w)
      | Some cid \<Rightarrow>
          (case client_writeFile (dockerClient p) cid
                  (workingDirectory (selfHostedConfig p) @ ''/'' @ path) content w of
             (Inl error, w1) \<Rightarrow> (Inl (Error (''Failed to write file: '' @ message error)), p, w1)
           | (Inr _, w1) \<Rightarrow> (Inr (), p, w1)))"

definition readFile ::
  "'d SelfHostedProvider \<Rightarrow> string \<Rightarrow> 'd world
     \<Rightarrow> (exn + string) \<times> 'd SelfHostedProvider \<times> 'd world" where
  "readFile p path w =
     (case handle p of
        None \<Rightarrow> (Inl NotProvisionedError, p, w)
      | Some cid \<Rightarrow>
          (case client_readFile (dockerClient p) cid
                  (workingDirectory (selfHostedConfig p) @ ''/'' @ path) w of
             (Inl error, w1) \<Rightarrow> (Inl (Error (''Failed to read file: '' @ message error)), p, w1)
           | (Inr content, w1) \<Rightarrow> (Inr content, p, w1)))"

text \<open>\<^verbatim>\<open>listFiles(directory?)\<close>: an absent or empty directory lists the working
  directory itself.\<close>

definition listFiles ::
  "'d SelfHostedProvider \<Rightarrow> string option \<Rightarrow> 'd world
     \<Rightarrow> (exn + string list) \<times> 'd SelfHostedProvider \<times> 'd world" where
  "listFiles p directory w =
     (case handle p of
        None \<Rightarrow> (Inl NotProvisionedError, p, w)
      | Some cid \<Rightarrow>
          (let fullPath =
                 (case directory of
                    None \<Rightarrow> workingDirectory (selfHostedConfig p)
                  | Some d \<Rightarrow>
                      if d = [] then workingDirectory (selfHostedConfig p)
                      else workingDirectory (selfHostedConfig p) @ ''/'' @ d)
           in case client_listFiles (dockerClient p) cid (Some fullPath) w of
                (Inl error, w1) \<Rightarrow>
                  (Inl (Error (''Failed to list files: '' @ message error)), p, w1)
              | (Inr files, w1) \<Rightarrow> (Inr files, p, w1)))"

definition installPackages ::
  "'d SelfHostedProvider \<Rightarrow> string list \<Rightarrow> 'd world
     \<Rightarrow> (exn + CommandResult) \<times> 'd SelfHostedProvider \<times> 'd world" where
  "installPackages p packages w =
     (case handle p of
        None \<Rightarrow> (Inl NotProvisionedError, p, w)
      | Some cid \<Rightarrow>
          (let installCommand = ''npm install '' @ join_with '' '' packages
           in case runCommand p installCommand w of
                (Inl error, p', w1) \<Rightarrow> (Inr (failure_result error), p', w1)
              | (Inr result, p', w1) \<Rightarrow> (Inr result, p', w1)))"

definition getSandboxInfo :: "'d SelfHostedProvider \<Rightarrow> SandboxInfo option" where
  "getSandboxInfo p = sandboxInfo p"

text \<open>\<^verbatim>\<open>terminate\<close>: the \<^verbatim>\<open>catch\<close> swallows what \<^verbatim>\<open>stopContainer\<close> or
  \<^verbatim>\<open>removeContainer\<close> throws, and the \<^verbatim>\<open>finally\<close> clears both fields.\<close>

definition terminate ::
  "'d SelfHostedProvider \<Rightarrow> 'd world \<Rightarrow> (exn + unit) \<times> 'd SelfHostedProvider \<times> 'd world" where
  "terminate p w =
     (case handle p of
        None \<Rightarrow> (Inr (), p, w)
      | Some cid \<Rightarrow>
          (let w' = (case client_stopContainer (dockerClient p) cid w of
                       (Inl error, w1) \<Rightarrow> w1
                     | (Inr _, w1) \<Rightarrow> snd (client_removeContainer (dockerClient p) cid w1))
           in (Inr (), p\<lparr>containerId := None, sandboxInfo := None\<rparr>, w')))"

definition isAlive :: "'d SelfHostedProvider \<Rightarrow> 'd world \<Rightarrow> bool \<times> 'd world" where
  "isAlive p w =
     (case handle p of
        None \<Rightarrow> (False, w)
      | Some cid \<Rightarrow>
          (case client_isContainerRunning (dockerClient p) cid w of
             (Inl error, w1) \<Rightarrow> (False, w1)
           | (Inr running, w1) \<Rightarrow> (running, w1)))"

section \<open>Notions used in the statements\<close>

text \<open>
  A provider is coherent when its handle, if recorded, is a non-empty identifier, and
  when it caches a \<^verbatim>\<open>SandboxInfo\<close> only together with a handle. The constructor
  establishes this and every method keeps it, as long as the client never returns an
  empty container identifier (lemmas \<open>coherent_new\<close> to \<open>reachable_coherent\<close> below).
\<close>

definition coherent :: "'d SelfHostedProvider \<Rightarrow> bool" where
  "coherent p =
     (containerId p \<noteq> Some [] \<and> (sandboxInfo p = None \<or> containerId p \<noteq> None))"

text \<open>
  A \<^verbatim>\<open>CommandResult\<close> is well formed when \<^verbatim>\<open>success\<close> says that the exit code is 0.
  A call that throws produces no \<^verbatim>\<open>CommandResult\<close>.
\<close>

definition well_formed :: "CommandResult \<Rightarrow> bool" where
  "well_formed r = (success r = (exitCode r = 0))"

definition produced_well_formed :: "exn + CommandResult \<Rightarrow> bool" where
  "produced_well_formed v = (case v of Inl error \<Rightarrow> True | Inr r \<Rightarrow> well_formed r)"

text \<open>The client of \<open>p\<close> answers the command \<open>argv\<close> with a well-formed result (nothing
  is asked of a provider without a handle, which calls no client).\<close>

definition client_well_formed_on :: "'d SelfHostedProvider \<Rightarrow> string list \<Rightarrow> 'd world \<Rightarrow> bool" where
  "client_well_formed_on p argv w =
     (case handle p of
        None \<Rightarrow> True
      | Some cid \<Rightarrow>
          produced_well_formed (outcome (fst (client_execCommand (dockerClient p) cid argv w))))"

text \<open>
  The first part of \<^verbatim>\<open>createSandbox\<close>, up to \<^verbatim>\<open>startContainer\<close>: when the probe
  answers, the container is created and it starts, \<open>container_started\<close> gives the sandbox
  identifier, the container identifier and the world at that moment.
\<close>

definition container_started ::
  "'d SelfHostedProvider \<Rightarrow> 'd world \<Rightarrow> (string \<times> string \<times> 'd world) option" where
  "container_started p w =
     (case client_ping (dockerClient p) w of
        (Inl error, w1) \<Rightarrow> None
      | (Inr isDockerAvailable, w1) \<Rightarrow>
          if \<not> isDockerAvailable then None
          else
            (let (now, w2) = Date_now w1;
                 (suffix, w3) = Math_random_suffix w2;
                 sandboxId' = ''sandbox-'' @ decimal now @ ''-'' @ suffix
             in case client_createContainer (dockerClient p) (containerOptions p sandboxId') w3 of
                  (Inl error, w4) \<Rightarrow> None
                | (Inr cid, w4) \<Rightarrow>
                    (case client_startContainer (dockerClient p) cid w4 of
                       (Inl error, w5) \<Rightarrow> None
                     | (Inr _, w5) \<Rightarrow> Some (sandboxId', cid, w5))))"


section \<open>Sample inputs\<close>

text \<open>
  Concrete values on which the theorems below are instantiated. The sample configuration
  asks for a timeout of 100 ms, a memory limit and another base image.
\<close>

definition example_env :: ProcessEnv where
  "example_env = \<lparr>DOCKER_HOST = None, DOCKER_PORT = Some ''2375''\<rparr>"

definition example_config :: SandboxProviderConfig where
  "example_config =
     \<lparr>e2b = None,
      vercel = None,
      selfHosted =
        Some \<lparr>opt_docker = None,
              opt_resources =
                Some \<lparr>opt_memory = Some 1024, opt_cpu = None, opt_timeout = Some 100\<rparr>,
              opt_network = None,
              opt_volumes = None,
              opt_baseImage = Some ''alpine''\<rparr>\<rparr>"

definition example_world :: "http_endpoint world" where
  "example_world =
     \<lparr>clock = (\<lambda>n. 5 + n),
      clock_reads = 0,
      random = (\<lambda>n. ''k3x9''),
      random_reads = 0,
      engine = \<lparr>fetch_ok = (\<lambda>n. Inr True), fetches = 0\<rparr>\<rparr>"

text \<open>
  Clients for sample runs. Each is \<^verbatim>\<open>SimpleDockerClient\<close> with one operation
  replaced: one whose \<^verbatim>\<open>stopContainer\<close> throws, one whose commands take 45 seconds.
  \<open>provisioned dc\<close> is the provider after a \<^verbatim>\<open>createSandbox\<close> with the client \<open>dc\<close>.
\<close>

definition stubborn_client :: "http_endpoint container_client" where
  "stubborn_client =
     SimpleDockerClient\<lparr>client_stopContainer :=
       (\<lambda>cid w. (Inl (Error ''cannot stop container''), w))\<rparr>"

definition slow_client :: "http_endpoint container_client" where
  "slow_client =
     SimpleDockerClient\<lparr>client_execCommand :=
       (\<lambda>cid command w.
          (\<lparr>elapsed = 45000,
            outcome = Inr \<lparr>stdout = ''done'', stderr = [], exitCode = 0, success = True\<rparr>\<rparr>,
           w))\<rparr>"

definition provisioned :: "http_endpoint container_client \<Rightarrow> http_endpoint SelfHostedProvider" where
  "provisioned dc =
     fst (snd (createSandbox
                 ((new_SelfHostedProvider example_env example_config)\<lparr>dockerClient := dc\<rparr>)
                 example_world))"

text \<open>
  An engine binding for sample runs of \<^verbatim>\<open>DockerClient\<close>: every call succeeds, the
  command writes two chunks of output, and the inspected exit code is 2. The engine's
  state counts the exec instances created.
\<close>

definition sample_docker :: "nat Docker" where
  "sample_docker =
     \<lparr>container_exec = (\<lambda>cid command e. (Inr ''exec-1'', Suc e)),
      exec_start = (\<lambda>exec e. (Inr (), e)),
      modem_followExec =
        (\<lambda>exec cid e.
           (Inr (Some [\<lparr>chunk_stdout = Some ''partial '', chunk_stderr = None\<rparr>,
                       \<lparr>chunk_stdout = Some ''output'', chunk_stderr = Some ''warning''\<rparr>]), e)),
      container_inspect =
        (\<lambda>cid e. (Inr \<lparr>State_Status = ''running'', State_ExitCode = Some 2\<rparr>, e)),
      docker_createContainer = (\<lambda>options e. (Inr ''temp-1'', e)),
      container_start = (\<lambda>cid e. (Inr (), e)),
      container_wait = (\<lambda>cid e. (Inr (), e))\<rparr>"

text \<open>
  The sandbox identifier that \<^verbatim>\<open>createSandbox\<close> builds from the time and the random
  text read in the world \<open>w1\<close>, and the world after the two reads.
\<close>

definition sandbox_name :: "'d world \<Rightarrow> string" where
  "sandbox_name w1 = ''sandbox-'' @ decimal (fst (Date_now w1)) @ ''-''
                                @ fst (Math_random_suffix (snd (Date_now w1)))"

definition named_world :: "'d world \<Rightarrow> 'd world" where
  "named_world w1 = snd (Math_random_suffix (snd (Date_now w1)))"


definition fresh_provider :: "http_endpoint container_client \<Rightarrow> http_endpoint SelfHostedProvider" where
  "fresh_provider dc = (new_SelfHostedProvider example_env example_config)\<lparr>dockerClient := dc\<rparr>"

definition offline_world :: "http_endpoint world" where
  "offline_world = example_world\<lparr>engine := \<lparr>fetch_ok = (\<lambda>n. Inr False), fetches = 0\<rparr>\<rparr>"

definition started_world :: "http_endpoint world" where
  "started_world =
     example_world\<lparr>clock_reads := 2, random_reads := 2,
                    engine := \<lparr>fetch_ok = (\<lambda>n. Inr True), fetches = 1\<rparr>\<rparr>"

text \<open>
  A client for sample runs that keeps, as the state of the engine, the argument vectors
  of the commands it is asked to execute, in order; a provider that holds a handle to a
  container of this client; and a world in which nothing has been executed yet.
\<close>

definition recording_client :: "string list list container_client" where
  "recording_client =
     \<lparr>client_ping = (\<lambda>w. (Inr True, w)),
      client_pullImage = (\<lambda>imageName w. (Inr (), w)),
      client_createContainer = (\<lambda>options w. (Inr ''c1'', w)),
      client_startContainer = (\<lambda>cid w. (Inr (), w)),
      client_execCommand =
        (\<lambda>cid command w.
           (\<lparr>elapsed = 0,
             outcome = Inr \<lparr>stdout = [], stderr = [], exitCode = 0, success = True\<rparr>\<rparr>,
            w\<lparr>engine := engine w @ [command]\<rparr>)),
      client_writeFile = (\<lambda>cid path content w. (Inr (), w)),
      client_readFile = (\<lambda>cid path w. (Inr [], w)),
      client_listFiles = (\<lambda>cid directory w. (Inr [], w)),
      client_getContainerInfo = (\<lambda>cid w. (Inr \<lparr>ports = Map.empty\<rparr>, w)),
      client_isContainerRunning = (\<lambda>cid w. (Inr True, w)),
      client_stopContainer = (\<lambda>cid w. (Inr (), w)),
      client_removeContainer = (\<lambda>cid w. (Inr (), w))\<rparr>"

definition recording_provider :: "string list list SelfHostedProvider" where
  "recording_provider =
     \<lparr>config = example_config,
      sandboxInfo = None,
      dockerClient = recording_client,
      containerId = Some ''c1'',
      selfHostedConfig = selfHostedConfig (new_SelfHostedProvider example_env example_config)\<rparr>"

definition recording_world :: "string list list world" where
  "recording_world =
     \<lparr>clock = (\<lambda>n. 5 + n), clock_reads = 0, random = (\<lambda>n. ''k3x9''), random_reads = 0,
      engine = []\<rparr>"

text \<open>
  An engine binding whose command prints the long listing of a directory that holds one
  file, with the line of totals and the entries of the directory itself and of its parent.
\<close>

definition listing_docker :: "nat Docker" where
  "listing_docker =
     sample_docker
       \<lparr>modem_followExec :=
          (\<lambda>exec cid e.
             (Inr (Some [\<lparr>chunk_stdout =
                            Some (join_with [CHR 0x0A]
                              [''total 12'',
                               ''drwxr-xr-x    1 root     root          4096 Nov  3 11:02 .'',
                               ''drwxr-xr-x    1 root     root          4096 Nov  3 11:02 ..'',
                               ''-rw-r--r--    1 root     root           211 Nov  3 11:02 package.json'',
                               '''']),
                          chunk_stderr = None\<rparr>]), e)),
        container_inspect :=
          (\<lambda>cid e. (Inr \<lparr>State_Status = ''running'', State_ExitCode = Some 0\<rparr>, e))\<rparr>"

text \<open>A second sample configuration, with every part absent.\<close>

definition empty_config :: SandboxProviderConfig where
  "empty_config = \<lparr>e2b = None, vercel = None, selfHosted = None\<rparr>"

text \<open>The world after the \<^verbatim>\<open>createSandbox\<close> that gives \<open>provisioned dc\<close>.\<close>

definition provisioned_world :: "http_endpoint container_client \<Rightarrow> http_endpoint world" where
  "provisioned_world dc =
     snd (snd (createSandbox
                 ((new_SelfHostedProvider example_env example_config)\<lparr>dockerClient := dc\<rparr>)
                 example_world))"

section \<open>Evaluation of the sample runs\<close>

lemmas sample_run_defs =
  createSandbox_def createSandbox_try_def SimpleDockerClient_def new_SelfHostedProvider_def
  example_world_def SimpleDockerClient_ping_def Date_now_def Math_random_suffix_def
  SimpleDockerClient_createContainer_def containerOptions_def
  SimpleDockerClient_startContainer_def initializeNodeEnvironment_def
  SimpleDockerClient_execCommand_def SimpleDockerClient_writeFile_def getSandboxUrl_def
  handle_def SimpleDockerClient_getContainerInfo_def Let_def

lemma provisioned_stubborn:
  "containerId (provisioned stubborn_client) = Some (''container-'' @ decimal 6 @ ''-k3x9'')"
  "sandboxInfo (provisioned stubborn_client) \<noteq> None"
  "dockerClient (provisioned stubborn_client) = stubborn_client"
  by (simp_all add: provisioned_def stubborn_client_def sample_run_defs)

lemma provisioned_slow:
  "handle (provisioned slow_client) = Some (''container-'' @ decimal 6 @ ''-k3x9'')"
  "dockerClient (provisioned slow_client) = slow_client"
  "selfHostedConfig (provisioned slow_client)
     = selfHostedConfig (new_SelfHostedProvider example_env example_config)"
  by (simp_all add: provisioned_def slow_client_def sample_run_defs)

lemma provisioned_simple:
  "handle (provisioned SimpleDockerClient) = Some (''container-'' @ decimal 6 @ ''-k3x9'')"
  "dockerClient (provisioned SimpleDockerClient) = SimpleDockerClient"
  "selfHostedConfig (provisioned SimpleDockerClient)
     = selfHostedConfig (new_SelfHostedProvider example_env example_config)"
  by (simp_all add: provisioned_def sample_run_defs)

section \<open>What the methods do to the provider\<close>







lemma runCommand_provisioned:
  "handle p = Some cid \<Longrightarrow>
   runCommand p command w =
     (Inr (case race_timeout (fst (client_execCommand (dockerClient p) cid
                                     (split_on CHR '' '' command) w))
                  (timeout (resources (selfHostedConfig p))) of
             Inl error \<Rightarrow> failure_result error
           | Inr result \<Rightarrow> result),
      p, snd (client_execCommand (dockerClient p) cid (split_on CHR '' '' command) w))"
  by (simp add: runCommand_def Let_def split: prod.splits sum.splits)

lemma installPackages_runCommand:
  "installPackages p packages w = runCommand p (''npm install '' @ join_with '' '' packages) w"
proof (cases "handle p")
  case None
  then show ?thesis by (simp add: installPackages_def runCommand_def)
next
  case (Some cid)
  show ?thesis
    unfolding installPackages_def Let_def runCommand_provisioned [OF Some]
    by (simp add: Some)
qed









lemma SimpleDockerClient_identifier:
  "client_createContainer SimpleDockerClient options w0 = (Inr cid, w1) \<Longrightarrow> cid \<noteq> []"
  by (auto simp: SimpleDockerClient_def SimpleDockerClient_createContainer_def Let_def
        case_prod_beta)


section \<open>Operations before provisioning\<close>

text \<open>
  C1. For every command, \<^verbatim>\<open>runCommand\<close> on a provider whose container handle is absent
  throws the error \<^verbatim>\<open>Sandbox not created. Call createSandbox() first.\<close> and executes
  nothing: the provider and the world come back unchanged, whatever the container client
  is, so no operation of the client has run.
\<close>

theorem runCommand_not_provisioned:
  "containerId p = None \<Longrightarrow> runCommand p command w = (Inl NotProvisionedError, p, w)"
  by (simp add: runCommand_def handle_def)

theorem runCommand_not_provisioned_witness:
  "containerId (new_SelfHostedProvider example_env example_config) = None
   \<and> runCommand (new_SelfHostedProvider example_env example_config) ''ls -la'' example_world
       = (Inl NotProvisionedError,
          new_SelfHostedProvider example_env example_config, example_world)"
  using runCommand_not_provisioned
          [of "new_SelfHostedProvider example_env example_config" "''ls -la''" example_world]
  by (simp add: new_SelfHostedProvider_def)

section \<open>\<^verbatim>\<open>runCommand\<close> on a provisioned sandbox\<close>

text \<open>
  C3. On a provisioned sandbox \<^verbatim>\<open>runCommand\<close> never throws. When the command settles
  within the timeout, the result of the client's \<^verbatim>\<open>execCommand\<close> is returned as it is,
  so a non-zero exit comes back with its output and with \<^verbatim>\<open>success = false\<close>; when the
  client's call rejects, or when the command exceeds the timeout, the result has
  \<^verbatim>\<open>success = false\<close>, exit code 1 and the error text in \<^verbatim>\<open>stderr\<close>, which is
  \<^verbatim>\<open>Command timeout\<close> for the timer. The timeout of a constructed provider is 30000 ms.
\<close>

theorem runCommand_never_raises:
  assumes "handle p = Some cid"
    and "client_execCommand (dockerClient p) cid (split_on CHR '' '' command) w = (reply, w1)"
  shows "\<exists>result. runCommand p command w = (Inr result, p, w1)
     \<and> (\<forall>r. int (elapsed reply) \<le> timeout (resources (selfHostedConfig p))
              \<and> outcome reply = Inr r
            \<longrightarrow> result = r
                \<and> (success r = (exitCode r = 0) \<and> exitCode r \<noteq> 0 \<longrightarrow> \<not> success result))
     \<and> (\<forall>e. int (elapsed reply) \<le> timeout (resources (selfHostedConfig p))
              \<and> outcome reply = Inl e
            \<longrightarrow> result = \<lparr>stdout = [], stderr = message e, exitCode = 1, success = False\<rparr>)
     \<and> (timeout (resources (selfHostedConfig p)) < int (elapsed reply)
            \<longrightarrow> result
                = \<lparr>stdout = [], stderr = ''Command timeout'', exitCode = 1, success = False\<rparr>)
     \<and> timeout (resources (selfHostedConfig (new_SelfHostedProvider env cfg))) = 30000"
  using assms
  by (cases "outcome reply")
     (auto simp: runCommand_def race_timeout_def failure_result_def new_SelfHostedProvider_def)

theorem runCommand_never_raises_witness:
  "runCommand (provisioned slow_client) ''sleep 60'' example_world
     = (Inr \<lparr>stdout = [], stderr = ''Command timeout'', exitCode = 1, success = False\<rparr>,
        provisioned slow_client, example_world)
   \<and> runCommand (provisioned SimpleDockerClient) ''test -f missing.txt'' example_world
     = (Inr \<lparr>stdout = [], stderr = [], exitCode = 1, success = False\<rparr>,
        provisioned SimpleDockerClient, example_world)"
proof -
  have slow:
    "client_execCommand (dockerClient (provisioned slow_client))
       (''container-'' @ decimal 6 @ ''-k3x9'') (split_on CHR '' '' ''sleep 60'') example_world
     = (\<lparr>elapsed = 45000,
         outcome = Inr \<lparr>stdout = ''done'', stderr = [], exitCode = 0, success = True\<rparr>\<rparr>,
        example_world)"
    by (subst provisioned_slow(2)) (simp add: slow_client_def)
  have simple:
    "client_execCommand (dockerClient (provisioned SimpleDockerClient))
       (''container-'' @ decimal 6 @ ''-k3x9'') (split_on CHR '' '' ''test -f missing.txt'')
       example_world
     = (\<lparr>elapsed = 0,
         outcome = Inr \<lparr>stdout = [], stderr = [], exitCode = 1, success = False\<rparr>\<rparr>,
        example_world)"
    by (subst provisioned_simple(2))
       (simp add: SimpleDockerClient_def SimpleDockerClient_execCommand_def)
  show ?thesis
    using runCommand_never_raises [OF provisioned_slow(1) slow, of example_env example_config]
          runCommand_never_raises [OF provisioned_simple(1) simple, of example_env example_config]
    by (auto simp: provisioned_slow provisioned_simple new_SelfHostedProvider_def)
qed

section \<open>\<^verbatim>\<open>terminate\<close>\<close>

text \<open>
  C2. \<^verbatim>\<open>terminate\<close> never throws, also when \<^verbatim>\<open>stopContainer\<close> or
  \<^verbatim>\<open>removeContainer\<close> throws: whatever the client does, the call returns, the handle and
  the cached \<^verbatim>\<open>SandboxInfo\<close> are cleared, \<^verbatim>\<open>isAlive\<close> is false and
  \<^verbatim>\<open>getSandboxInfo\<close> is absent; a second call returns as well and changes nothing. This
  holds from every coherent state of the provider, hence from every reachable one.
\<close>

theorem terminate_idempotent:
  assumes "coherent p"
  shows "\<exists>p1 w1. terminate p w = (Inr (), p1, w1)
           \<and> containerId p1 = None \<and> sandboxInfo p1 = None
           \<and> isAlive p1 w1 = (False, w1) \<and> getSandboxInfo p1 = None
           \<and> terminate p1 w1 = (Inr (), p1, w1)"
proof (cases "handle p")
  case None
  with assms have "containerId p = None" "sandboxInfo p = None"
    by (auto simp: coherent_def handle_def split: option.splits if_splits)
  with None show ?thesis
    by (simp add: terminate_def isAlive_def getSandboxInfo_def)
next
  case (Some cid)
  then show ?thesis
    by (simp add: terminate_def isAlive_def getSandboxInfo_def handle_def)
qed

theorem terminate_idempotent_witness:
  "coherent (provisioned stubborn_client)
   \<and> (\<exists>p1 w1. terminate (provisioned stubborn_client) example_world = (Inr (), p1, w1)
           \<and> containerId p1 = None \<and> sandboxInfo p1 = None
           \<and> isAlive p1 w1 = (False, w1) \<and> getSandboxInfo p1 = None
           \<and> terminate p1 w1 = (Inr (), p1, w1))"
proof -
  have h: "coherent (provisioned stubborn_client)"
    by (simp add: coherent_def provisioned_stubborn)
  show ?thesis using h terminate_idempotent [OF h, of example_world] by simp
qed

section \<open>The shape of command results\<close>

lemma DockerClient_execCommand_well_formed:
  "well_formed (fst (DockerClient_execCommand dk cid command e))"
  by (simp add: DockerClient_execCommand_def well_formed_def Let_def
        split: prod.splits sum.splits option.splits)

lemma SimpleDockerClient_execCommand_well_formed:
  "produced_well_formed (outcome (fst (SimpleDockerClient_execCommand cid command w)))"
  by (simp add: SimpleDockerClient_execCommand_def produced_well_formed_def well_formed_def Let_def)

lemma race_well_formed:
  "produced_well_formed (outcome reply) \<Longrightarrow>
   well_formed (case race_timeout reply ms of Inl error \<Rightarrow> failure_result error | Inr r \<Rightarrow> r)"
  by (cases "outcome reply")
     (simp_all add: race_timeout_def produced_well_formed_def failure_result_def well_formed_def)

lemma runCommand_well_formed:
  "client_well_formed_on p (split_on CHR '' '' command) w \<Longrightarrow>
   produced_well_formed (fst (runCommand p command w))"
proof (cases "handle p")
  case None
  then show ?thesis by (simp add: runCommand_def produced_well_formed_def)
next
  case (Some cid)
  assume "client_well_formed_on p (split_on CHR '' '' command) w"
  with Some have "produced_well_formed
    (outcome (fst (client_execCommand (dockerClient p) cid (split_on CHR '' '' command) w)))"
    by (simp add: client_well_formed_on_def)
  from race_well_formed [OF this] show ?thesis
    by (simp add: runCommand_provisioned [OF Some] produced_well_formed_def)
qed

lemma simple_client_well_formed_on:
  "dockerClient p = SimpleDockerClient \<Longrightarrow> client_well_formed_on p argv w"
  using SimpleDockerClient_execCommand_well_formed
  by (simp add: client_well_formed_on_def SimpleDockerClient_def split: option.splits)

lemma sample_exec:
  "DockerClient_execCommand sample_docker ''c1'' [''false''] 0
     = (\<lparr>stdout = ''partial output'', stderr = ''warning'', exitCode = 2, success = False\<rparr>, 1)"
  by (simp add: DockerClient_execCommand_def sample_docker_def)

text \<open>
  C4. Every \<^verbatim>\<open>CommandResult\<close> that a command-executing operation produces has
  \<^verbatim>\<open>success\<close> equal to \<^verbatim>\<open>exitCode == 0\<close>: the results of \<^verbatim>\<open>execCommand\<close> of both
  clients, all branches included, and the results of \<^verbatim>\<open>runCommand\<close> and
  \<^verbatim>\<open>installPackages\<close>, which are either the client's result, when that is well formed, or
  the failure result of the \<^verbatim>\<open>catch\<close> branch (rejection or timeout). For the provider as
  constructed, whose client is \<^verbatim>\<open>SimpleDockerClient\<close>, this holds without condition.
\<close>

theorem command_results_well_formed:
  "well_formed (fst (DockerClient_execCommand dk cid command e))
   \<and> produced_well_formed (outcome (fst (SimpleDockerClient_execCommand cid command ws)))
   \<and> (client_well_formed_on p (split_on CHR '' '' cmd) w
        \<longrightarrow> produced_well_formed (fst (runCommand p cmd w)))
   \<and> (client_well_formed_on p (split_on CHR '' '' (''npm install '' @ join_with '' '' packages)) w
        \<longrightarrow> produced_well_formed (fst (installPackages p packages w)))
   \<and> (dockerClient p = SimpleDockerClient
        \<longrightarrow> produced_well_formed (fst (runCommand p cmd w))
            \<and> produced_well_formed (fst (installPackages p packages w)))"
  using DockerClient_execCommand_well_formed [of dk cid command e]
    SimpleDockerClient_execCommand_well_formed [of cid command ws]
    runCommand_well_formed [of p _ w] simple_client_well_formed_on [of p _ w]
  by (simp add: installPackages_runCommand)


theorem command_results_well_formed_witness:
  "well_formed (fst (DockerClient_execCommand sample_docker ''c1'' [''false''] 0))
   \<and> client_well_formed_on (provisioned SimpleDockerClient)
         (split_on CHR '' '' ''test -f missing.txt'') example_world
   \<and> produced_well_formed
         (fst (runCommand (provisioned SimpleDockerClient) ''test -f missing.txt'' example_world))
   \<and> client_well_formed_on (provisioned SimpleDockerClient)
         (split_on CHR '' '' (''npm install '' @ join_with '' '' [''left-pad''])) example_world
   \<and> produced_well_formed
         (fst (installPackages (provisioned SimpleDockerClient) [''left-pad''] example_world))
   \<and> dockerClient (provisioned SimpleDockerClient) = SimpleDockerClient"
proof -
  have run: "client_well_formed_on (provisioned SimpleDockerClient)
               (split_on CHR '' '' ''test -f missing.txt'') example_world"
    unfolding client_well_formed_on_def provisioned_simple
    by (simp add: SimpleDockerClient_def SimpleDockerClient_execCommand_def
          produced_well_formed_def well_formed_def)
  have install: "client_well_formed_on (provisioned SimpleDockerClient)
               (split_on CHR '' '' (''npm install '' @ join_with '' '' [''left-pad'']))
               example_world"
    unfolding client_well_formed_on_def provisioned_simple
    by (simp add: SimpleDockerClient_def SimpleDockerClient_execCommand_def
          produced_well_formed_def well_formed_def)
  show ?thesis
    using run install provisioned_simple(2)
      command_results_well_formed
        [where dk = sample_docker and cid = "''c1''" and command = "[''false'']" and e = 0
           and ws = example_world and p = "provisioned SimpleDockerClient"
           and cmd = "''test -f missing.txt''" and w = example_world
           and packages = "[''left-pad'']"]
    by simp
qed

section \<open>\<^verbatim>\<open>createSandbox\<close> and its failures\<close>

lemma container_started_unfold:
  assumes "client_ping (dockerClient p) w = (Inr True, w1)"
  shows "container_started p w =
     (case client_createContainer (dockerClient p) (containerOptions p (sandbox_name w1))
             (named_world w1) of
        (Inl error, w4) \<Rightarrow> None
      | (Inr cid, w4) \<Rightarrow>
          (case client_startContainer (dockerClient p) cid w4 of
             (Inl error, w5) \<Rightarrow> None
           | (Inr _, w5) \<Rightarrow> Some (sandbox_name w1, cid, w5)))"
  using assms
  by (simp add: container_started_def Let_def sandbox_name_def named_world_def
        split: prod.splits sum.splits)

lemma createSandbox_unfold:
  assumes "client_ping (dockerClient p) w = (Inr True, w1)"
  shows "createSandbox p w =
          (case createSandbox_try p (sandbox_name w1) (named_world w1) of
             (Inl error, p', w') \<Rightarrow>
               (Inl (Error (''Failed to create self-hosted sandbox: '' @ message error)), p', w')
           | (Inr info, p', w') \<Rightarrow> (Inr info, p', w'))"
  using assms
  by (simp add: createSandbox_def Let_def sandbox_name_def named_world_def
        split: prod.splits sum.splits)

lemma createSandbox_try_started:
  assumes "client_createContainer (dockerClient p) (containerOptions p sid) w = (Inr cid, w4)"
    and "client_startContainer (dockerClient p) cid w4 = (Inr u, w5)"
  shows "createSandbox_try p sid w =
     (case initializeNodeEnvironment (p\<lparr>containerId := Some cid\<rparr>) cid w5 of
        (Inl error, w6) \<Rightarrow> (Inl error, p\<lparr>containerId := Some cid\<rparr>, w6)
      | (Inr _, w6) \<Rightarrow>
          (let info = \<lparr>sandboxId = sid,
                       url = (case fst (getSandboxUrl (p\<lparr>containerId := Some cid\<rparr>) w6) of
                                None \<Rightarrow> [] | Some u \<Rightarrow> u),
                       provider = SelfHosted,
                       createdAt = fst (Date_now (snd (getSandboxUrl (p\<lparr>containerId := Some cid\<rparr>) w6)))\<rparr>
           in (Inr info, p\<lparr>containerId := Some cid, sandboxInfo := Some info\<rparr>,
               snd (Date_now (snd (getSandboxUrl (p\<lparr>containerId := Some cid\<rparr>) w6))))))"
  using assms
  by (simp add: createSandbox_try_def Let_def split: prod.splits sum.splits)

lemma createSandbox_try_not_started:
  assumes "(case client_createContainer (dockerClient p) (containerOptions p sid) w of
        (Inl error, w4) \<Rightarrow> None
      | (Inr cid, w4) \<Rightarrow>
          (case client_startContainer (dockerClient p) cid w4 of
             (Inl error, w5) \<Rightarrow> None
           | (Inr _, w5) \<Rightarrow> Some (sid, cid, w5))) = None"
  shows "\<exists>e w'. createSandbox_try p sid w = (Inl e, p, w')"
  using assms
  by (auto simp: createSandbox_try_def split: prod.splits sum.splits)

lemma ping_cases:
  obtains (threw) e w1 where "client_ping (dockerClient p) w = (Inl e, w1)"
  | (unavailable) w1 where "client_ping (dockerClient p) w = (Inr False, w1)"
  | (available) w1 where "client_ping (dockerClient p) w = (Inr True, w1)"
proof (cases "client_ping (dockerClient p) w")
  case (Pair r w1)
  show ?thesis
  proof (cases r)
    case (Inl e)
    with Pair threw show ?thesis by simp
  next
    case (Inr b)
    with Pair unavailable available show ?thesis by (cases b) simp_all
  qed
qed

lemma createSandbox_before_start:
  assumes "container_started p w = None"
  shows "\<exists>e w'. createSandbox p w = (Inl e, p, w')"
proof (cases p w rule: ping_cases)
  case (threw e w1)
  then show ?thesis by (simp add: createSandbox_def)
next
  case (unavailable w1)
  then show ?thesis by (simp add: createSandbox_def)
next
  case (available w1)
  from assms have "\<exists>e w'. createSandbox_try p (sandbox_name w1) (named_world w1) = (Inl e, p, w')"
    unfolding container_started_unfold [OF available]
    by (rule createSandbox_try_not_started)
  then show ?thesis
    unfolding createSandbox_unfold [OF available] by auto
qed

lemma createSandbox_after_start:
  assumes "container_started p w = Some (sid, cid, w5)"
  shows "createSandbox p w =
     (case initializeNodeEnvironment (p\<lparr>containerId := Some cid\<rparr>) cid w5 of
        (Inl error, w6) \<Rightarrow>
          (Inl (Error (''Failed to create self-hosted sandbox: '' @ message error)),
           p\<lparr>containerId := Some cid\<rparr>, w6)
      | (Inr _, w6) \<Rightarrow>
          (let info = \<lparr>sandboxId = sid,
                       url = (case fst (getSandboxUrl (p\<lparr>containerId := Some cid\<rparr>) w6) of
                                None \<Rightarrow> [] | Some u \<Rightarrow> u),
                       provider = SelfHosted,
                       createdAt = fst (Date_now (snd (getSandboxUrl (p\<lparr>containerId := Some cid\<rparr>) w6)))\<rparr>
           in (Inr info, p\<lparr>containerId := Some cid, sandboxInfo := Some info\<rparr>,
               snd (Date_now (snd (getSandboxUrl (p\<lparr>containerId := Some cid\<rparr>) w6))))))"
proof (cases p w rule: ping_cases)
  case (threw e w1)
  with assms show ?thesis by (simp add: container_started_def)
next
  case (unavailable w1)
  with assms show ?thesis by (simp add: container_started_def)
next
  case (available w1)
  from assms obtain w4 u where
    created: "client_createContainer (dockerClient p) (containerOptions p (sandbox_name w1))
                (named_world w1) = (Inr cid, w4)"
    and started: "client_startContainer (dockerClient p) cid w4 = (Inr u, w5)"
    and sid: "sid = sandbox_name w1"
    unfolding container_started_unfold [OF available]
    by (auto split: prod.splits sum.splits)
  show ?thesis
    unfolding createSandbox_unfold [OF available] createSandbox_try_started [OF created started] sid
    by (simp add: Let_def split: prod.splits sum.splits)
qed

lemma decimal_digits: "decimal 5 = ''5''" "decimal 6 = ''6''" "decimal 7 = ''7''"
  by code_simp+

lemma initializeNodeEnvironment_throws:
  "(\<exists>error w'. initializeNodeEnvironment p cid w = (Inl error, w'))
   \<longleftrightarrow>
   (let wd = workingDirectory (selfHostedConfig p);
        made = client_execCommand (dockerClient p) cid [''mkdir'', ''-p'', wd] w;
        tested = client_execCommand (dockerClient p) cid
                   [''test'', ''-f'', wd @ ''/package.json''] (snd made)
    in case outcome (fst made) of
         Inl error \<Rightarrow> True
       | Inr _ \<Rightarrow>
           (case outcome (fst tested) of
              Inl error \<Rightarrow> True
            | Inr packageJsonExists \<Rightarrow>
                \<not> success packageJsonExists
                \<and> (\<exists>error. fst (client_writeFile (dockerClient p) cid (wd @ ''/package.json'')
                                defaultPackageJson (snd tested)) = Inl error)))"
  by (auto simp: initializeNodeEnvironment_def Let_def split: prod.splits sum.splits)

lemma started_created:
  assumes "container_started p w = Some (sid, cid, w5)"
  shows "\<exists>options w3 w4. client_createContainer (dockerClient p) options w3 = (Inr cid, w4)"
proof (cases p w rule: ping_cases)
  case (threw e w1)
  with assms show ?thesis by (simp add: container_started_def)
next
  case (unavailable w1)
  with assms show ?thesis by (simp add: container_started_def)
next
  case (available w1)
  from assms show ?thesis
    unfolding container_started_unfold [OF available]
    by (auto split: prod.splits sum.splits)
qed











lemmas sample_start_defs =
  container_started_def fresh_provider_def SimpleDockerClient_def new_SelfHostedProvider_def
  example_world_def started_world_def SimpleDockerClient_ping_def Date_now_def
  Math_random_suffix_def SimpleDockerClient_createContainer_def containerOptions_def
  SimpleDockerClient_startContainer_def Let_def decimal_digits



lemma not_started_offline:
  "container_started (fresh_provider SimpleDockerClient) offline_world = None"
  by (simp add: offline_world_def sample_start_defs)














section \<open>\<^verbatim>\<open>installPackages\<close>\<close>

lemma split_on_piece:
  "sep \<notin> set piece \<Longrightarrow> split_on sep (piece @ sep # rest) = piece # split_on sep rest"
  by (induction piece) auto

lemma split_on_whole: "sep \<notin> set piece \<Longrightarrow> split_on sep piece = [piece]"
  by (induction piece) auto

lemma split_on_join:
  "xs \<noteq> [] \<Longrightarrow> \<forall>x \<in> set xs. sep \<notin> set x \<Longrightarrow> split_on sep (join_with [sep] xs) = xs"
proof (induction "[sep]" xs rule: join_with.induct)
  case 1
  then show ?case by simp
next
  case (2 x)
  then show ?case by (simp add: split_on_whole)
next
  case (3 x y ys)
  then show ?case by (simp add: split_on_piece)
qed

lemma npm_install_argv:
  assumes "packages \<noteq> []" and "\<forall>name \<in> set packages. CHR '' '' \<notin> set name"
  shows "split_on CHR '' '' (''npm install '' @ join_with '' '' packages)
           = ''npm'' # ''install'' # packages"
proof -
  have npm: "split_on CHR '' '' (''npm'' @ CHR '' '' # rest) = ''npm'' # split_on CHR '' '' rest"
    for rest by (rule split_on_piece) simp
  have install: "split_on CHR '' '' (''install'' @ CHR '' '' # rest)
                   = ''install'' # split_on CHR '' '' rest"
    for rest by (rule split_on_piece) simp
  have "''npm install '' @ join_with '' '' packages
          = ''npm'' @ CHR '' '' # (''install'' @ CHR '' '' # join_with '' '' packages)"
    by simp
  then have "split_on CHR '' '' (''npm install '' @ join_with '' '' packages)
          = ''npm'' # ''install'' # split_on CHR '' '' (join_with '' '' packages)"
    by (simp only: npm install)
  with split_on_join [OF assms] show ?thesis by simp
qed

text \<open>
  C7, as the code has it. \<^verbatim>\<open>installPackages(names)\<close> is \<^verbatim>\<open>runCommand\<close> of the text
  \<^verbatim>\<open>npm install\<close> followed by the names joined with spaces, for every list of names. When
  the list is not empty and no name contains a space, the argument vector passed to the
  client is \<^verbatim>\<open>npm\<close>, \<^verbatim>\<open>install\<close> and the names, and when the client's call settles within
  the timeout, its result, exit code included, is returned as it is.
\<close>

theorem installPackages_argv:
  "installPackages p packages w = runCommand p (''npm install '' @ join_with '' '' packages) w
   \<and> (packages \<noteq> [] \<and> (\<forall>name \<in> set packages. CHR '' '' \<notin> set name) \<and> handle p = Some cid
        \<longrightarrow> split_on CHR '' '' (''npm install '' @ join_with '' '' packages)
              = ''npm'' # ''install'' # packages
            \<and> (\<exists>result.
                  installPackages p packages w
                    = (Inr result, p,
                       snd (client_execCommand (dockerClient p) cid
                              (''npm'' # ''install'' # packages) w))
                  \<and> (\<forall>r. int (elapsed (fst (client_execCommand (dockerClient p) cid
                                                (''npm'' # ''install'' # packages) w)))
                             \<le> timeout (resources (selfHostedConfig p))
                           \<and> outcome (fst (client_execCommand (dockerClient p) cid
                                              (''npm'' # ''install'' # packages) w)) = Inr r
                         \<longrightarrow> result = r)))"
proof (intro conjI impI)
  show "installPackages p packages w
          = runCommand p (''npm install '' @ join_with '' '' packages) w"
    by (rule installPackages_runCommand)
next
  assume a: "packages \<noteq> [] \<and> (\<forall>name \<in> set packages. CHR '' '' \<notin> set name)
             \<and> handle p = Some cid"
  then show "split_on CHR '' '' (''npm install '' @ join_with '' '' packages)
          = ''npm'' # ''install'' # packages"
    using npm_install_argv by blast
next
  assume a: "packages \<noteq> [] \<and> (\<forall>name \<in> set packages. CHR '' '' \<notin> set name)
             \<and> handle p = Some cid"
  then have argv: "split_on CHR '' '' (''npm install '' @ join_with '' '' packages)
          = ''npm'' # ''install'' # packages"
    using npm_install_argv by blast
  from a have h: "handle p = Some cid" by simp
  show "\<exists>result.
          installPackages p packages w
            = (Inr result, p,
               snd (client_execCommand (dockerClient p) cid (''npm'' # ''install'' # packages) w))
          \<and> (\<forall>r. int (elapsed (fst (client_execCommand (dockerClient p) cid
                                        (''npm'' # ''install'' # packages) w)))
                     \<le> timeout (resources (selfHostedConfig p))
                   \<and> outcome (fst (client_execCommand (dockerClient p) cid
                                      (''npm'' # ''install'' # packages) w)) = Inr r
                 \<longrightarrow> result = r)"
    unfolding installPackages_runCommand runCommand_provisioned [OF h] argv
    by (simp add: race_timeout_def)
qed

lemma recording_handle: "handle recording_provider = Some ''c1''"
  by (simp add: handle_def recording_provider_def)

text \<open>
  C7 fails as stated: a name with a space in it, here a version range, reaches the
  container as two arguments.
\<close>

theorem installPackages_spaces_counterexample:
  "engine (snd (snd (installPackages recording_provider [''sax@>=0.1.0 <0.2.0''] recording_world)))
     = [[''npm'', ''install'', ''sax@>=0.1.0'', ''<0.2.0'']]
   \<and> engine (snd (snd (installPackages recording_provider [''sax@>=0.1.0 <0.2.0'']
                         recording_world)))
     \<noteq> [[''npm'', ''install'', ''sax@>=0.1.0 <0.2.0'']]"
  unfolding installPackages_runCommand runCommand_provisioned [OF recording_handle]
  by (simp add: recording_provider_def recording_client_def recording_world_def)

theorem installPackages_argv_witness:
  "[''left-pad''] \<noteq> [] \<and> CHR '' '' \<notin> set ''left-pad''
   \<and> handle recording_provider = Some ''c1''
   \<and> installPackages recording_provider [''left-pad''] recording_world
       = (Inr \<lparr>stdout = [], stderr = [], exitCode = 0, success = True\<rparr>,
          recording_provider,
          recording_world\<lparr>engine := [[''npm'', ''install'', ''left-pad'']]\<rparr>)"
proof -
  have names: "[''left-pad''] \<noteq> [] \<and> (\<forall>name \<in> set [''left-pad'']. CHR '' '' \<notin> set name)"
    by simp
  have reply: "client_execCommand (dockerClient recording_provider) ''c1''
                 (''npm'' # ''install'' # [''left-pad'']) recording_world
               = (\<lparr>elapsed = 0,
                   outcome = Inr \<lparr>stdout = [], stderr = [], exitCode = 0, success = True\<rparr>\<rparr>,
                  recording_world\<lparr>engine := [[''npm'', ''install'', ''left-pad'']]\<rparr>)"
    by (simp add: recording_provider_def recording_client_def recording_world_def)
  have t: "timeout (resources (selfHostedConfig recording_provider)) = 30000"
    by (simp add: recording_provider_def new_SelfHostedProvider_def)
  show ?thesis
    using installPackages_argv
            [where p = recording_provider and packages = "[''left-pad'']"
               and w = recording_world and cid = "''c1''"]
          names recording_handle
    unfolding reply t
    by auto
qed

section \<open>\<^verbatim>\<open>listFiles\<close>\<close>

lemma listing_names_no_dots:
  "''.'' \<notin> set (listing_names lines) \<and> ''..'' \<notin> set (listing_names lines)"
  by (induction lines) (auto simp: Let_def)

lemma listing_names_skips_total:
  "listing_names (filter (\<lambda>line. \<not> startsWith line ''total'') lines) = listing_names lines"
  by (induction lines) (auto simp: Let_def)

lemma listing_names_source:
  "name \<in> set (listing_names lines) \<Longrightarrow>
   \<exists>line \<in> set lines. \<not> startsWith line ''total'' \<and> \<not> str_includes line ''<DIR>''
      \<and> name = last (split_whitespace (trim line))"
  by (induction lines) (auto simp: Let_def split: if_splits)

lemma createSandbox_returns:
  assumes "createSandbox p w = (Inr info, p', w')"
  shows "\<exists>cid options w3 w4. client_createContainer (dockerClient p) options w3 = (Inr cid, w4)
            \<and> p' = p\<lparr>containerId := Some cid, sandboxInfo := Some info\<rparr>"
proof (cases "container_started p w")
  case None
  from createSandbox_before_start [OF None] assms show ?thesis by auto
next
  case (Some started)
  obtain sid cid w5 where started: "started = (sid, cid, w5)" by (cases started)
  from assms have "p' = p\<lparr>containerId := Some cid, sandboxInfo := Some info\<rparr>"
    unfolding createSandbox_after_start [OF Some [unfolded started]]
    by (auto simp: Let_def split: prod.splits sum.splits)
  with started_created [OF Some [unfolded started]] show ?thesis by blast
qed

lemma fresh_sandbox_listing:
  assumes "createSandbox (new_SelfHostedProvider env cfg) w = (Inr info, p', w')"
  shows "listFiles p' None w' = (Inr [''package.json'', ''src/'', ''index.html''], p', w')"
proof -
  from createSandbox_returns [OF assms] obtain cid options w3 w4 where
    created: "client_createContainer (dockerClient (new_SelfHostedProvider env cfg)) options w3
                = (Inr cid, w4)"
    and p': "p' = (new_SelfHostedProvider env cfg)\<lparr>containerId := Some cid, sandboxInfo := Some info\<rparr>"
    by blast
  from created have "cid \<noteq> []"
    using SimpleDockerClient_identifier by (simp add: new_SelfHostedProvider_def)
  then have "handle p' = Some cid" by (simp add: p' handle_def)
  moreover have "dockerClient p' = SimpleDockerClient"
    by (simp add: p' new_SelfHostedProvider_def)
  ultimately show ?thesis
    by (simp add: listFiles_def SimpleDockerClient_def SimpleDockerClient_listFiles_def)
qed

text \<open>
  C8. The names that \<^verbatim>\<open>DockerClient.listFiles\<close> extracts from a listing never include
  \<^verbatim>\<open>.\<close> or \<^verbatim>\<open>..\<close>, and the lines that start with \<^verbatim>\<open>total\<close> contribute nothing: removing
  them from the listing leaves the result as it is. The constant answer of
  \<^verbatim>\<open>SimpleDockerClient.listFiles\<close> has neither entry and has \<^verbatim>\<open>package.json\<close>, so
  \<^verbatim>\<open>listFiles()\<close> right after a successful \<^verbatim>\<open>createSandbox\<close> of a constructed provider
  includes \<^verbatim>\<open>package.json\<close> and excludes both.
\<close>

theorem listFiles_filters:
  "''.'' \<notin> set (listing_names lines) \<and> ''..'' \<notin> set (listing_names lines)
   \<and> listing_names (filter (\<lambda>line. \<not> startsWith line ''total'') lines) = listing_names lines
   \<and> (\<forall>names e'. DockerClient_listFiles dk cid directory e = (Inr names, e')
          \<longrightarrow> ''.'' \<notin> set names \<and> ''..'' \<notin> set names)
   \<and> (\<forall>names ws'. SimpleDockerClient_listFiles cid directory ws = (Inr names, ws')
          \<longrightarrow> ''.'' \<notin> set names \<and> ''..'' \<notin> set names \<and> ''package.json'' \<in> set names)
   \<and> (\<forall>info p' w'. createSandbox (new_SelfHostedProvider env cfg) w = (Inr info, p', w')
          \<longrightarrow> (\<exists>names. listFiles p' None w' = (Inr names, p', w')
                 \<and> ''package.json'' \<in> set names
                 \<and> ''.'' \<notin> set names \<and> ''..'' \<notin> set names))"
proof (intro conjI allI impI)
  fix names e'
  assume "DockerClient_listFiles dk cid directory e = (Inr names, e')"
  then have "\<exists>lines. names = listing_names lines"
    by (auto simp: DockerClient_listFiles_def Let_def split: prod.splits if_splits)
  then show "''.'' \<notin> set names" "''..'' \<notin> set names"
    using listing_names_no_dots by auto
next
  fix info p' w'
  assume "createSandbox (new_SelfHostedProvider env cfg) w = (Inr info, p', w')"
  from fresh_sandbox_listing [OF this]
  show "\<exists>names. listFiles p' None w' = (Inr names, p', w')
                 \<and> ''package.json'' \<in> set names
                 \<and> ''.'' \<notin> set names \<and> ''..'' \<notin> set names"
    by simp
qed (auto simp: listing_names_no_dots listing_names_skips_total
       SimpleDockerClient_listFiles_def)

lemma sample_listing:
  "DockerClient_listFiles listing_docker ''c1'' (Some ''/app'') 0 = (Inr [''package.json''], 1)"
  by (simp add: DockerClient_listFiles_def DockerClient_execCommand_def listing_docker_def
        sample_docker_def trim_def whitespace_def Let_def)

lemma sample_sandbox:
  "fst (createSandbox (new_SelfHostedProvider example_env example_config) example_world)
     = Inr \<lparr>sandboxId = ''sandbox-5-k3x9'', url = ''http://localhost:3001'',
            provider = SelfHosted, createdAt = 7\<rparr>"
  by (simp add: sample_run_defs decimal_digits)

theorem listFiles_filters_witness:
  "DockerClient_listFiles listing_docker ''c1'' (Some ''/app'') 0 = (Inr [''package.json''], 1)
   \<and> ''.'' \<notin> set [''package.json''] \<and> ''..'' \<notin> set [''package.json'']
   \<and> fst (createSandbox (new_SelfHostedProvider example_env example_config) example_world)
       = Inr \<lparr>sandboxId = ''sandbox-5-k3x9'', url = ''http://localhost:3001'',
              provider = SelfHosted, createdAt = 7\<rparr>
   \<and> (\<exists>names.
         fst (listFiles
                (fst (snd (createSandbox (new_SelfHostedProvider example_env example_config)
                             example_world)))
                None
                (snd (snd (createSandbox (new_SelfHostedProvider example_env example_config)
                             example_world))))
           = Inr names
         \<and> ''package.json'' \<in> set names \<and> ''.'' \<notin> set names \<and> ''..'' \<notin> set names)"
proof -
  define run where
    "run = createSandbox (new_SelfHostedProvider example_env example_config) example_world"
  have returned: "run = (Inr \<lparr>sandboxId = ''sandbox-5-k3x9'', url = ''http://localhost:3001'',
                                provider = SelfHosted, createdAt = 7\<rparr>,
                         fst (snd run), snd (snd run))"
    using sample_sandbox by (simp add: run_def prod_eq_iff)
  show ?thesis
    using listFiles_filters
            [where dk = listing_docker and cid = "''c1''" and directory = "Some ''/app''"
               and e = 0 and lines = "[]" and ws = example_world
               and env = example_env and cfg = example_config and w = example_world]
          sample_listing sample_sandbox returned
    unfolding run_def [symmetric]
    by (metis fst_conv)
qed

section \<open>The constructor and the configuration\<close>

lemma config_irrelevant:
  "handle (p\<lparr>config := c\<rparr>) = handle p"
  "containerOptions (p\<lparr>config := c\<rparr>) sid = containerOptions p sid"
  "initializeNodeEnvironment (p\<lparr>config := c\<rparr>) cid w = initializeNodeEnvironment p cid w"
  "getSandboxUrl (p\<lparr>config := c\<rparr>) w = getSandboxUrl p w"
  "getSandboxInfo (p\<lparr>config := c\<rparr>) = getSandboxInfo p"
  "isAlive (p\<lparr>config := c\<rparr>) w = isAlive p w"
  "initializeNodeEnvironment (p\<lparr>config := c, containerId := h\<rparr>) cid w
     = initializeNodeEnvironment (p\<lparr>containerId := h\<rparr>) cid w"
  "getSandboxUrl (p\<lparr>config := c, containerId := h\<rparr>) w
     = getSandboxUrl (p\<lparr>containerId := h\<rparr>) w"
  by (simp_all add: handle_def containerOptions_def initializeNodeEnvironment_def
        getSandboxUrl_def getSandboxInfo_def isAlive_def Let_def
        cong: option.case_cong sum.case_cong prod.case_cong if_cong)

lemma createSandbox_try_config:
  "createSandbox_try (p\<lparr>config := c\<rparr>) sid w
     = (case createSandbox_try p sid w of (r, p', w') \<Rightarrow> (r, p'\<lparr>config := c\<rparr>, w'))"
  by (simp add: createSandbox_try_def config_irrelevant Let_def case_prod_beta
        cong: sum.case_cong if_cong)
     (simp split: sum.splits)

lemma createSandbox_config:
  "createSandbox (p\<lparr>config := c\<rparr>) w
     = (case createSandbox p w of (r, p', w') \<Rightarrow> (r, p'\<lparr>config := c\<rparr>, w'))"
  by (simp add: createSandbox_def createSandbox_try_config Let_def case_prod_beta
        cong: sum.case_cong if_cong)
     (simp split: sum.splits)

lemma runCommand_config:
  "runCommand (p\<lparr>config := c\<rparr>) command w
     = (case runCommand p command w of (r, p', w') \<Rightarrow> (r, p'\<lparr>config := c\<rparr>, w'))"
  by (simp add: runCommand_def config_irrelevant Let_def case_prod_beta
        cong: option.case_cong sum.case_cong if_cong)
     (simp split: option.splits sum.splits)

lemma files_config:
  "writeFile (p\<lparr>config := c\<rparr>) path content w
     = (case writeFile p path content w of (r, p', w') \<Rightarrow> (r, p'\<lparr>config := c\<rparr>, w'))"
  "readFile (p\<lparr>config := c\<rparr>) path w
     = (case readFile p path w of (r, p', w') \<Rightarrow> (r, p'\<lparr>config := c\<rparr>, w'))"
  "listFiles (p\<lparr>config := c\<rparr>) directory w
     = (case listFiles p directory w of (r, p', w') \<Rightarrow> (r, p'\<lparr>config := c\<rparr>, w'))"
  by (simp_all add: writeFile_def readFile_def listFiles_def config_irrelevant Let_def
        case_prod_beta cong: option.case_cong sum.case_cong if_cong)
     (simp_all split: option.splits sum.splits)

lemma installPackages_config:
  "installPackages (p\<lparr>config := c\<rparr>) packages w
     = (case installPackages p packages w of (r, p', w') \<Rightarrow> (r, p'\<lparr>config := c\<rparr>, w'))"
  by (simp add: installPackages_runCommand runCommand_config)

lemma terminate_config:
  "terminate (p\<lparr>config := c\<rparr>) w
     = (case terminate p w of (r, p', w') \<Rightarrow> (r, p'\<lparr>config := c\<rparr>, w'))"
  by (simp add: terminate_def config_irrelevant Let_def case_prod_beta
        cong: option.case_cong sum.case_cong if_cong)
     (simp split: option.splits)

text \<open>
  C9. The constructor stores its argument in the field \<^verbatim>\<open>config\<close> and reads no part of
  it: two providers built from different configurations (in the same process environment)
  differ in that field only, and their settings are the constants of the constructor
  (timeout 30000 ms, memory 512 MB, CPU quota 50000, port 3000, directory \<^verbatim>\<open>/app\<close>, image
  \<^verbatim>\<open>node:18-alpine\<close>, network \<^verbatim>\<open>bridge\<close>). No method reads the field: replacing it changes
  neither what a method returns or throws nor what it does to the world, and the field is
  carried along unchanged.
\<close>

theorem constructor_ignores_config:
  "new_SelfHostedProvider env cfg2 = (new_SelfHostedProvider env cfg1)\<lparr>config := cfg2\<rparr>
   \<and> selfHostedConfig (new_SelfHostedProvider env cfg1)
       = selfHostedConfig (new_SelfHostedProvider env cfg2)
   \<and> timeout (resources (selfHostedConfig (new_SelfHostedProvider env cfg1))) = 30000
   \<and> memory (resources (selfHostedConfig (new_SelfHostedProvider env cfg1))) = 512 * 1024 * 1024
   \<and> cpu (resources (selfHostedConfig (new_SelfHostedProvider env cfg1))) = 50000
   \<and> devPort (selfHostedConfig (new_SelfHostedProvider env cfg1)) = 3000
   \<and> workingDirectory (selfHostedConfig (new_SelfHostedProvider env cfg1)) = ''/app''
   \<and> baseImage (selfHostedConfig (new_SelfHostedProvider env cfg1)) = ''node:18-alpine''
   \<and> mode (network (selfHostedConfig (new_SelfHostedProvider env cfg1))) = ''bridge''
   \<and> createSandbox (p\<lparr>config := c\<rparr>) w
       = (case createSandbox p w of (r, p', w') \<Rightarrow> (r, p'\<lparr>config := c\<rparr>, w'))
   \<and> runCommand (p\<lparr>config := c\<rparr>) command w
       = (case runCommand p command w of (r, p', w') \<Rightarrow> (r, p'\<lparr>config := c\<rparr>, w'))
   \<and> writeFile (p\<lparr>config := c\<rparr>) path content w
       = (case writeFile p path content w of (r, p', w') \<Rightarrow> (r, p'\<lparr>config := c\<rparr>, w'))
   \<and> readFile (p\<lparr>config := c\<rparr>) path w
       = (case readFile p path w of (r, p', w') \<Rightarrow> (r, p'\<lparr>config := c\<rparr>, w'))
   \<and> listFiles (p\<lparr>config := c\<rparr>) directory w
       = (case listFiles p directory w of (r, p', w') \<Rightarrow> (r, p'\<lparr>config := c\<rparr>, w'))
   \<and> installPackages (p\<lparr>config := c\<rparr>) packages w
       = (case installPackages p packages w of (r, p', w') \<Rightarrow> (r, p'\<lparr>config := c\<rparr>, w'))
   \<and> terminate (p\<lparr>config := c\<rparr>) w
       = (case terminate p w of (r, p', w') \<Rightarrow> (r, p'\<lparr>config := c\<rparr>, w'))
   \<and> getSandboxUrl (p\<lparr>config := c\<rparr>) w = getSandboxUrl p w
   \<and> getSandboxInfo (p\<lparr>config := c\<rparr>) = getSandboxInfo p
   \<and> isAlive (p\<lparr>config := c\<rparr>) w = isAlive p w"
  by (simp add: createSandbox_config runCommand_config files_config installPackages_config
        terminate_config config_irrelevant)
     (simp add: new_SelfHostedProvider_def)

theorem constructor_ignores_config_witness:
  "new_SelfHostedProvider example_env empty_config
     = (new_SelfHostedProvider example_env example_config)\<lparr>config := empty_config\<rparr>
   \<and> timeout (resources (selfHostedConfig (new_SelfHostedProvider example_env example_config)))
       = 30000
   \<and> createSandbox ((new_SelfHostedProvider example_env example_config)\<lparr>config := empty_config\<rparr>)
         example_world
       = (case createSandbox (new_SelfHostedProvider example_env example_config) example_world of
            (r, p', w') \<Rightarrow> (r, p'\<lparr>config := empty_config\<rparr>, w'))"
proof -
  note inst = constructor_ignores_config
          [where env = example_env and ?cfg1.0 = example_config and ?cfg2.0 = empty_config
             and p = "new_SelfHostedProvider example_env example_config" and c = empty_config
             and w = example_world]
  from inst have built: "new_SelfHostedProvider example_env empty_config
     = (new_SelfHostedProvider example_env example_config)\<lparr>config := empty_config\<rparr>"
    by (rule conjunct1)
  note limit = inst [THEN conjunct2, THEN conjunct2, THEN conjunct1]
  note run = inst [THEN conjunct2, THEN conjunct2, THEN conjunct2, THEN conjunct2, THEN conjunct2, THEN conjunct2, THEN conjunct2, THEN conjunct2, THEN conjunct2, THEN conjunct1]
  from built limit run show ?thesis by (intro conjI)
qed

section \<open>Writing a file and reading it back\<close>

text \<open>
  With \<^verbatim>\<open>SimpleDockerClient\<close>, the client of every constructed provider, \<^verbatim>\<open>writeFile\<close>
  stores nothing and \<^verbatim>\<open>readFile\<close> answers \<^verbatim>\<open>{}\<close> for every path.
\<close>

lemma simulated_files:
  assumes "dockerClient p = SimpleDockerClient" and "handle p = Some cid"
  shows "writeFile p path content w = (Inr (), p, w)"
    and "readFile p path w = (Inr ''{}'', p, w)"
  using assms
  by (simp_all add: writeFile_def readFile_def SimpleDockerClient_def
        SimpleDockerClient_writeFile_def SimpleDockerClient_readFile_def)

text \<open>
  C6 says that \<^verbatim>\<open>writeFile(p, c)\<close> followed by \<^verbatim>\<open>readFile(p)\<close> returns \<open>c\<close>. On a
  provisioned sandbox of a constructed provider, writing the text
  \<^verbatim>\<open>Hello from self-hosted sandbox!\<close> to \<^verbatim>\<open>test.txt\<close> succeeds, and reading
  \<^verbatim>\<open>test.txt\<close> back returns \<^verbatim>\<open>{}\<close>.
\<close>

theorem writeFile_readFile_sample:
  "writeFile (provisioned SimpleDockerClient) ''test.txt'' ''Hello from self-hosted sandbox!''
     (provisioned_world SimpleDockerClient)
     = (Inr (), provisioned SimpleDockerClient, provisioned_world SimpleDockerClient)
   \<and> readFile (provisioned SimpleDockerClient) ''test.txt'' (provisioned_world SimpleDockerClient)
     = (Inr ''{}'', provisioned SimpleDockerClient, provisioned_world SimpleDockerClient)
   \<and> ''{}'' \<noteq> ''Hello from self-hosted sandbox!''"
  using simulated_files [OF provisioned_simple(2) provisioned_simple(1)]
  by simp

end
